theory Spec2Isabelle
  imports Main "HOL-Library.AList"
begin

section \<open>JavaScript values\<close>

text \<open>
  The payloads handed to \<open>sendMessage\<close> and the results of \<open>JSON.parse\<close> are JavaScript
  values. Numbers are modelled as mathematical integers; an object is the list of its own
  properties, each key once, in the order JavaScript enumerates them; a function, which
  a value can inherit from its prototype, is known by the text it converts to.
\<close>

datatype jsval =
    JUndefined
  | JNull
  | JBool bool
  | JNum int
  | JStr string
  | JArr "jsval list"
  | JObj "(string \<times> jsval) list"
  | JFunction string

datatype jstype = TUndefined | TObject | TBoolean | TNumber | TString | TFunction

text \<open>The \<open>typeof\<close> operator: \<open>null\<close> and arrays are objects.\<close>

fun typeof :: "jsval \<Rightarrow> jstype" where
  "typeof JUndefined = TUndefined"
| "typeof JNull = TObject"
| "typeof (JBool b) = TBoolean"
| "typeof (JNum n) = TNumber"
| "typeof (JStr s) = TString"
| "typeof (JArr xs) = TObject"
| "typeof (JObj kvs) = TObject"
| "typeof (JFunction src) = TFunction"

text \<open>What an \<open>if (v)\<close> test accepts.\<close>

fun truthy :: "jsval \<Rightarrow> bool" where
  "truthy JUndefined = False"
| "truthy JNull = False"
| "truthy (JBool b) = b"
| "truthy (JNum n) = (n \<noteq> 0)"
| "truthy (JStr s) = (s \<noteq> [])"
| "truthy (JArr xs) = True"
| "truthy (JObj kvs) = True"
| "truthy (JFunction src) = True"

fun string_of_nat :: "nat \<Rightarrow> string" where
  "string_of_nat n =
     (if n < 10 then [char_of (48 + n)]
      else string_of_nat (n div 10) @ [char_of (48 + n mod 10)])"

declare string_of_nat.simps [simp del]

definition string_of_int :: "int \<Rightarrow> string" where
  "string_of_int i =
     (if i < 0 then CHR ''-'' # string_of_nat (nat (- i)) else string_of_nat (nat i))"

fun join_comma :: "string list \<Rightarrow> string" where
  "join_comma [] = []"
| "join_comma [x] = x"
| "join_comma (x # y # ys) = x @ CHR '','' # join_comma (y # ys)"

text \<open>
  The conversion of a value to a property key, as in \<open>this.sendMessageQueue[uniqueKey]\<close>
  when \<open>uniqueKey\<close> is not a string.
\<close>

fun ToString :: "jsval \<Rightarrow> string" where
  "ToString JUndefined = ''undefined''"
| "ToString JNull = ''null''"
| "ToString (JBool b) = (if b then ''true'' else ''false'')"
| "ToString (JNum n) = string_of_int n"
| "ToString (JStr s) = s"
| "ToString (JArr xs) =
     join_comma (map (\<lambda>x. if x = JNull \<or> x = JUndefined then [] else ToString x) xs)"
| "ToString (JObj kvs) = ''[object Object]''"
| "ToString (JFunction src) = src"

text \<open>
  The own enumerable properties that \<open>Object.assign\<close> copies from a source: those of an
  object, the indices of an array or of a string, none of \<open>null\<close>, \<open>undefined\<close> or
  another primitive.
\<close>

fun own_props :: "jsval \<Rightarrow> (string \<times> jsval) list" where
  "own_props (JObj kvs) = kvs"
| "own_props (JArr xs) = zip (map string_of_nat [0 ..< length xs]) xs"
| "own_props (JStr cs) = zip (map string_of_nat [0 ..< length cs]) (map (\<lambda>c. JStr [c]) cs)"
| "own_props v = []"

text \<open>
  The keys JavaScript enumerates first, in ascending order: the array indices, which are
  the decimal numerals below \<open>2 ^ 32 - 1\<close> without a leading zero.
\<close>

fun digits_value :: "string \<Rightarrow> nat \<Rightarrow> nat option" where
  "digits_value [] acc = Some acc"
| "digits_value (c # cs) acc =
     (case map_of [(CHR ''0'', 0), (CHR ''1'', 1), (CHR ''2'', 2), (CHR ''3'', 3),
                   (CHR ''4'', 4), (CHR ''5'', 5), (CHR ''6'', 6), (CHR ''7'', 7),
                   (CHR ''8'', 8), (CHR ''9'', 9)] c of
        None \<Rightarrow> None
      | Some d \<Rightarrow> digits_value cs (10 * acc + d))"

definition array_index :: "string \<Rightarrow> nat option" where
  "array_index k =
     (if k = [] \<or> (hd k = CHR ''0'' \<and> k \<noteq> ''0'') then None
      else (case digits_value k 0 of
              None \<Rightarrow> None
            | Some n \<Rightarrow> if n < 4294967295 then Some n else None))"

text \<open>
  A new property takes its place in the order of enumeration: an array index before the
  first key that is a larger index or no index, any other key at the end.
\<close>

fun insert_prop :: "string \<Rightarrow> jsval \<Rightarrow> (string \<times> jsval) list \<Rightarrow> (string \<times> jsval) list" where
  "insert_prop k v [] = [(k, v)]"
| "insert_prop k v ((k', v') # rest) =
     (case array_index k of
        None \<Rightarrow> (k', v') # insert_prop k v rest
      | Some n \<Rightarrow>
          (case array_index k' of
             None \<Rightarrow> (k, v) # (k', v') # rest
           | Some n' \<Rightarrow>
               if n < n' then (k, v) # (k', v') # rest
               else (k', v') # insert_prop k v rest))"

text \<open>\<open>obj[k] = v\<close> on a plain object: the value of a key it has is replaced in place.\<close>

definition set_prop :: "string \<Rightarrow> jsval \<Rightarrow> (string \<times> jsval) list \<Rightarrow> (string \<times> jsval) list" where
  "set_prop k v obj =
     (if map_of obj k = None then insert_prop k v obj else AList.update k v obj)"

text \<open>
  \<open>Object.assign(target, source)\<close>: every property of the source is written to the
  target in turn.
\<close>

definition Object_assign ::
  "(string \<times> jsval) list \<Rightarrow> (string \<times> jsval) list \<Rightarrow> (string \<times> jsval) list" where
  "Object_assign target source = fold (\<lambda>(k, v) obj. set_prop k v obj) source target"

datatype message = URL_is_required
  | Max_reconnect_attempts_reached
  | Websocket_connection_is_not_open
  | Websocket_not_connected
  | Data_must_be_a_string_or_an_object
  | Event_is_not_supported string

text \<open>
  What a \<open>throw\<close> carries: an \<open>Error\<close> of the class with its message, the
  \<open>TypeError\<close> of a property read on \<open>undefined\<close> or \<open>null\<close>, the \<open>SyntaxError\<close> of
  \<open>JSON.parse\<close>, or whatever a listener or callback of the user throws.
\<close>

datatype exn = Error message | TypeError | SyntaxError | UserError string

section \<open>The state of a client\<close>

datatype readyState = CONNECTING | OPEN | CLOSING | CLOSED

record WebSocket =
  readyState :: readyState
  handlersBound :: bool

text \<open>
  The options as the constructor resolved them. An option that is \<open>undefined\<close>, not a
  number or not an integer is outside the model.
\<close>

record Options =
  url :: string
  timeout :: int
  reconnect :: bool
  reconnectInterval :: int
  reconnectMaxInterval :: int
  reconnectMaxTimes :: int
  uniqueKey :: string
  cacheMessage :: bool
  maxCacheMessage :: int

text \<open>
  A function of the user is known by its identity and by what it does when called: it
  returns, or it throws (a \<open>UserError\<close> with the text given). A \<open>MessageCallback\<close> and a \<open>SocketEventListener\<close> are such
  functions; the listener that \<open>once\<close> builds is a function of the client's own, with
  an identity of its own, around the user's. A function of the user that calls back
  into the client while it runs is not modelled.
\<close>

datatype userfn = UserFn nat "string option"

datatype listener = Plain userfn | OnceListener nat string userfn

datatype event = Event string | MessageEvent string

datatype timerAction = ConnectTimeout | ReconnectTimer | SendNextMessage nat

record timer =
  timerId :: nat
  delay :: int
  action :: timerAction

text \<open>
  The fields of the class \<open>ClientWs\<close>, followed by the part of the environment its methods
  act on: the timers that are armed, the next timer and function identities, the number of
  sockets created so far, the frames handed to \<open>ws.send\<close>, and the calls made to the
  user's listeners and callbacks, each in order.
\<close>

record ClientWs =
  ws :: "WebSocket option"
  options :: Options
  eventListeners :: "(string \<times> listener list) list"
  messageCache :: "(jsval \<times> userfn option) list"
  reconnectAttempts :: nat
  reconnectTimeout :: "nat option"
  sendMessageQueue :: "(string \<times> string \<times> userfn option) list"
  isHandleClose :: bool
  timers :: "timer list"
  nextTimerId :: nat
  nextFunctionId :: nat
  socketsCreated :: nat
  wire :: "string list"
  listenerCalls :: "(nat \<times> event) list"
  callbackCalls :: "(nat \<times> exn option \<times> jsval) list"

text \<open>
  \<open>JSON.parse\<close>, \<open>JSON.stringify\<close> and the prototypes belong to the platform and are
  parameters of the model: \<open>JSON_parse\<close> gives \<open>None\<close> where \<open>JSON.parse\<close> throws, and
  \<open>inherited v name\<close> is the member that the value \<open>v\<close> inherits from its prototype
  chain under \<open>name\<close>, if there is one (\<open>toString\<close> or \<open>constructor\<close> for an object).
\<close>

record platform =
  JSON_parse :: "string \<Rightarrow> jsval option"
  JSON_stringify :: "jsval \<Rightarrow> string"
  inherited :: "jsval \<Rightarrow> string \<Rightarrow> jsval option"

text \<open>
  Reading \<open>data[name]\<close>: a \<open>TypeError\<close> on \<open>null\<close> and \<open>undefined\<close>; otherwise the own
  property, the \<open>length\<close> of a string or an array, the inherited member, or \<open>undefined\<close>
  when there is none of these.
\<close>

definition get_prop :: "platform \<Rightarrow> jsval \<Rightarrow> string \<Rightarrow> exn + jsval" where
  "get_prop P v name =
     (if v = JNull \<or> v = JUndefined then Inl TypeError
      else
        (case map_of (own_props v) name of
           Some x \<Rightarrow> Inr x
         | None \<Rightarrow>
             (case (if name = ''length''
                    then (case v of
                            JStr cs \<Rightarrow> Some (JNum (int (length cs)))
                          | JArr xs \<Rightarrow> Some (JNum (int (length xs)))
                          | _ \<Rightarrow> None)
                    else None) of
                Some n \<Rightarrow> Inr n
              | None \<Rightarrow>
                  (case inherited P v name of
                     Some m \<Rightarrow> Inr m
                   | None \<Rightarrow> Inr JUndefined))))"

text \<open>
  A method returns the state it leaves and the exception it throws, if any: the
  assignments made before a \<open>throw\<close> stay.
\<close>

type_synonym outcome = "exn option \<times> ClientWs"

definition andThen :: "outcome \<Rightarrow> (ClientWs \<Rightarrow> outcome) \<Rightarrow> outcome" where
  "andThen r f = (case r of (None, s) \<Rightarrow> f s | (Some e, s) \<Rightarrow> (Some e, s))"

section \<open>The platform's timers and sockets\<close>

definition setTimeout :: "timerAction \<Rightarrow> int \<Rightarrow> ClientWs \<Rightarrow> nat \<times> ClientWs" where
  "setTimeout a d s =
     (nextTimerId s,
      s\<lparr>timers := timers s @ [\<lparr>timerId = nextTimerId s, delay = d, action = a\<rparr>],
        nextTimerId := Suc (nextTimerId s)\<rparr>)"

definition clearTimeout :: "nat \<Rightarrow> ClientWs \<Rightarrow> ClientWs" where
  "clearTimeout t s = s\<lparr>timers := filter (\<lambda>x. timerId x \<noteq> t) (timers s)\<rparr>"

text \<open>
  \<open>new WebSocket(url)\<close>: a socket that is connecting, with no handler yet. The
  \<open>SyntaxError\<close> of a malformed URL is not modelled.
\<close>

definition new_WebSocket :: "ClientWs \<Rightarrow> ClientWs" where
  "new_WebSocket s =
     s\<lparr>ws := Some \<lparr>readyState = CONNECTING, handlersBound = False\<rparr>,
       socketsCreated := Suc (socketsCreated s)\<rparr>"

text \<open>
  \<open>this.ws?.close()\<close>: a socket that is connecting or open starts closing, one that is
  closing or closed stays as it is.
\<close>

definition ws_close :: "ClientWs \<Rightarrow> ClientWs" where
  "ws_close s =
     (case ws s of
        None \<Rightarrow> s
      | Some w \<Rightarrow>
          if readyState w = CONNECTING \<or> readyState w = OPEN
          then s\<lparr>ws := Some (w\<lparr>readyState := CLOSING\<rparr>)\<rparr>
          else s)"

text \<open>\<open>this.ws.send(text)\<close> on an open socket.\<close>

definition ws_send :: "string \<Rightarrow> ClientWs \<Rightarrow> ClientWs" where
  "ws_send txt s = s\<lparr>wire := wire s @ [txt]\<rparr>"

section \<open>Construction\<close>

text \<open>
  A new client: the options as resolved, the fields as the class initialises them, no
  timer armed and nothing sent.
\<close>

definition initial :: "Options \<Rightarrow> ClientWs" where
  "initial opts =
     \<lparr>ws = None,
      options = opts,
      eventListeners = [],
      messageCache = [],
      reconnectAttempts = 0,
      reconnectTimeout = None,
      sendMessageQueue = [],
      isHandleClose = False,
      timers = [],
      nextTimerId = 1,
      nextFunctionId = 0,
      socketsCreated = 0,
      wire = [],
      listenerCalls = [],
      callbackCalls = []\<rparr>"

section \<open>Listeners\<close>

definition supportedEvents :: "string list" where
  "supportedEvents = [''open'', ''close'', ''message'', ''error'']"

text \<open>
  \<open>on\<close>: an unsupported name throws; the listener is appended to the array of the event,
  created empty when there is none, unless the array holds it already.
\<close>

definition on :: "string \<Rightarrow> listener \<Rightarrow> ClientWs \<Rightarrow> outcome" where
  "on ev l s =
     (if ev \<notin> set supportedEvents then (Some (Error (Event_is_not_supported ev)), s)
      else
        (let ls = (case map_of (eventListeners s) ev of None \<Rightarrow> [] | Some xs \<Rightarrow> xs)
         in (None, s\<lparr>eventListeners :=
               AList.update ev (if l \<in> set ls then ls else ls @ [l]) (eventListeners s)\<rparr>)))"

definition off :: "string \<Rightarrow> listener \<Rightarrow> ClientWs \<Rightarrow> ClientWs" where
  "off ev l s =
     (case map_of (eventListeners s) ev of
        None \<Rightarrow> s
      | Some ls \<Rightarrow>
          s\<lparr>eventListeners := AList.update ev (filter (\<lambda>x. x \<noteq> l) ls) (eventListeners s)\<rparr>)"

text \<open>\<open>once\<close>: the listener registered is a new function around the user's.\<close>

definition once :: "string \<Rightarrow> userfn \<Rightarrow> ClientWs \<Rightarrow> outcome" where
  "once ev f s =
     (if ev \<notin> set supportedEvents then (Some (Error (Event_is_not_supported ev)), s)
      else on ev (OnceListener (nextFunctionId s) ev f)
             (s\<lparr>nextFunctionId := Suc (nextFunctionId s)\<rparr>))"

text \<open>
  Calling a listener: the call is recorded, then the user's function returns or throws.
  The listener of \<open>once\<close> calls the user's function first and removes itself after it, so
  it stays registered when the user's function throws.
\<close>

fun call_listener :: "listener \<Rightarrow> event \<Rightarrow> ClientWs \<Rightarrow> outcome" where
  "call_listener (Plain (UserFn n thr)) d s =
     (map_option UserError thr, s\<lparr>listenerCalls := listenerCalls s @ [(n, d)]\<rparr>)"
| "call_listener (OnceListener i ev (UserFn n thr)) d s =
     andThen (map_option UserError thr, s\<lparr>listenerCalls := listenerCalls s @ [(n, d)]\<rparr>)
       (\<lambda>s'. (None, off ev (OnceListener i ev (UserFn n thr)) s'))"

text \<open>
  \<open>listeners.forEach((listener) => listener(data))\<close> over the array read when \<open>emit\<close>
  started: there is no \<open>try\<close> around the call, so the first listener that throws ends
  the loop and the exception leaves \<open>emit\<close>.
\<close>

fun forEach :: "listener list \<Rightarrow> event \<Rightarrow> ClientWs \<Rightarrow> outcome" where
  "forEach [] d s = (None, s)"
| "forEach (l # ls) d s = andThen (call_listener l d s) (forEach ls d)"

definition emit :: "string \<Rightarrow> event \<Rightarrow> ClientWs \<Rightarrow> outcome" where
  "emit ev d s =
     (case map_of (eventListeners s) ev of
        None \<Rightarrow> (None, s)
      | Some ls \<Rightarrow> if length ls > 0 then forEach ls d s else (None, s))"

definition removeListener :: "string \<Rightarrow> ClientWs \<Rightarrow> ClientWs" where
  "removeListener ev s = s\<lparr>eventListeners := AList.delete ev (eventListeners s)\<rparr>"

definition removeAllListeners :: "ClientWs \<Rightarrow> ClientWs" where
  "removeAllListeners s = s\<lparr>eventListeners := []\<rparr>"

section \<open>Connecting and reconnecting\<close>

definition bindEvents :: "ClientWs \<Rightarrow> ClientWs" where
  "bindEvents s =
     (case ws s of None \<Rightarrow> s | Some w \<Rightarrow> s\<lparr>ws := Some (w\<lparr>handlersBound := True\<rparr>)\<rparr>)"

text \<open>The delay of line 92: \<open>Math.min(reconnectInterval * Math.pow(2, reconnectAttempts), reconnectMaxInterval)\<close>.\<close>

definition exponentialBackoff :: "ClientWs \<Rightarrow> int" where
  "exponentialBackoff s =
     min (reconnectInterval (options s) * 2 ^ reconnectAttempts s)
         (reconnectMaxInterval (options s))"

text \<open>
  The private method \<open>reconnect\<close> (the name \<open>reconnect\<close> is the option's): nothing without
  a socket; the throw when the attempts are used up; the timer of \<open>reconnectTimeout\<close>
  is cleared (the test \<open>if (this.reconnectTimeout)\<close> fails for \<open>null\<close> and for 0);
  nothing more for a socket that is connecting or open; otherwise a timer is armed after
  the backoff delay.
\<close>

definition reconnect' :: "ClientWs \<Rightarrow> outcome" where
  "reconnect' s =
     (case ws s of
        None \<Rightarrow> (None, s)
      | Some w \<Rightarrow>
          if reconnectMaxTimes (options s) \<noteq> 0
             \<and> int (reconnectAttempts s) \<ge> reconnectMaxTimes (options s)
          then (Some (Error Max_reconnect_attempts_reached), s)
          else
            (let s1 = (case reconnectTimeout s of
                         None \<Rightarrow> s
                       | Some t \<Rightarrow> if t \<noteq> 0 then clearTimeout t s else s)
             in if readyState w = CONNECTING \<or> readyState w = OPEN then (None, s1)
                else
                  (let (t, s2) = setTimeout ReconnectTimer (exponentialBackoff s1) s1
                   in (None, s2\<lparr>reconnectTimeout := Some t\<rparr>))))"

text \<open>The function the reconnect timer runs (lines 93 to 97).\<close>

definition onReconnectTimer :: "ClientWs \<Rightarrow> ClientWs" where
  "onReconnectTimer s =
     (let s1 = bindEvents (new_WebSocket s)
      in s1\<lparr>reconnectAttempts := Suc (reconnectAttempts s1)\<rparr>)"

text \<open>The function the connection timeout runs (lines 59 to 69).\<close>

definition onConnectTimeout :: "ClientWs \<Rightarrow> outcome" where
  "onConnectTimeout s =
     (if isHandleClose s then (None, s)
      else
        (case ws s of
           None \<Rightarrow> (None, s)
         | Some w \<Rightarrow>
             if readyState w \<noteq> OPEN
             then andThen (emit ''error'' (Event ''timeout'') (ws_close s))
                    (\<lambda>s1. if reconnect (options s1)
                          then reconnect' (s1\<lparr>reconnectAttempts := Suc (reconnectAttempts s1)\<rparr>)
                          else (None, s1))
             else (None, s)))"

definition connect :: "ClientWs \<Rightarrow> ClientWs" where
  "connect s =
     (if ws s \<noteq> None then s
      else
        (let s1 = bindEvents (new_WebSocket s)
         in if timeout (options s1) \<noteq> 0
            then snd (setTimeout ConnectTimeout (timeout (options s1)) s1)
            else s1))"

section \<open>Sending\<close>

definition call_callback :: "userfn \<Rightarrow> exn option \<Rightarrow> jsval \<Rightarrow> ClientWs \<Rightarrow> outcome" where
  "call_callback f err d s =
     (case f of
        UserFn n thr \<Rightarrow>
          (map_option UserError thr, s\<lparr>callbackCalls := callbackCalls s @ [(n, err, d)]\<rparr>))"

text \<open>\<open>callback?.(new Error("websocket ..."), null)\<close> of line 227.\<close>

definition notConnected :: "userfn option \<Rightarrow> ClientWs \<Rightarrow> outcome" where
  "notConnected callback s =
     (case callback of
        None \<Rightarrow> (None, s)
      | Some f \<Rightarrow> call_callback f (Some (Error Websocket_not_connected)) JNull s)"

text \<open>
  \<open>sendMessage\<close>; \<open>key\<close> is what \<open>generateUniqueKey()\<close> returns in this call, a string
  of digits and lower-case letters. On an empty array \<open>shift\<close> removes nothing, as \<open>tl\<close>
  does.
\<close>

definition sendMessage ::
  "platform \<Rightarrow> string \<Rightarrow> jsval \<Rightarrow> userfn option \<Rightarrow> ClientWs \<Rightarrow> outcome" where
  "sendMessage P key data callback s =
     (let s1 =
        (if cacheMessage (options s) \<and> ws s = None
         then (if int (length (messageCache s)) < maxCacheMessage (options s)
               then s\<lparr>messageCache := messageCache s @ [(data, callback)]\<rparr>
               else s\<lparr>messageCache := tl (messageCache s) @ [(data, callback)]\<rparr>)
         else s)
      in case ws s1 of
           None \<Rightarrow> notConnected callback s1
         | Some w \<Rightarrow>
             if readyState w \<noteq> OPEN then notConnected callback s1
             else if typeof data \<noteq> TString \<and> typeof data \<noteq> TObject
             then (Some (Error Data_must_be_a_string_or_an_object), s1)
             else
               (case data of
                  JStr txt \<Rightarrow> (None, ws_send txt s1)
                | _ \<Rightarrow>
                    (let objMsg =
                           Object_assign
                             (Object_assign [] [(uniqueKey (options s1), JStr key)])
                             (own_props data);
                         message = JSON_stringify P (JObj objMsg);
                         s2 = s1\<lparr>sendMessageQueue :=
                                AList.update key (message, callback) (sendMessageQueue s1)\<rparr>
                     in (None, ws_send message s2))))"

text \<open>
  The closure \<open>sendNextMessage\<close> of \<open>sendCachedMessages\<close>, with the value of its variable
  \<open>index\<close>: it sends the cached message at \<open>index\<close> and arms a timer of 100 ms for the
  next one. An entry of the cache is an object, so the test \<open>if (message)\<close> holds.
\<close>

definition sendNextMessage :: "platform \<Rightarrow> string \<Rightarrow> nat \<Rightarrow> ClientWs \<Rightarrow> outcome" where
  "sendNextMessage P key index s =
     (if index < length (messageCache s)
      then (case messageCache s ! index of
              (data, callback) \<Rightarrow>
                andThen (sendMessage P key data callback s)
                  (\<lambda>s1. (None, snd (setTimeout (SendNextMessage (Suc index)) 100 s1))))
      else (None, s))"

definition sendCachedMessages :: "platform \<Rightarrow> string \<Rightarrow> ClientWs \<Rightarrow> outcome" where
  "sendCachedMessages P key s = sendNextMessage P key 0 s"

section \<open>The handlers of the socket's events\<close>

definition openHandler :: "platform \<Rightarrow> string \<Rightarrow> event \<Rightarrow> ClientWs \<Rightarrow> outcome" where
  "openHandler P key ev s =
     (let s1 = (if isHandleClose s then s\<lparr>isHandleClose := False\<rparr> else s);
          s2 = s1\<lparr>reconnectAttempts := 0\<rparr>
      in andThen (emit ''open'' ev s2) (sendCachedMessages P key))"

definition closeHandler :: "event \<Rightarrow> ClientWs \<Rightarrow> outcome" where
  "closeHandler ev s =
     andThen (emit ''close'' ev s)
       (\<lambda>s1. if reconnect (options s1) \<and> \<not> isHandleClose s1 then reconnect' s1 else (None, s1))"

definition errorHandler :: "event \<Rightarrow> ClientWs \<Rightarrow> outcome" where
  "errorHandler ev s = emit ''error'' ev s"

text \<open>
  The body of the \<open>try\<close> of \<open>messageHandler\<close>. It is given the parsed data; an exception
  it throws is caught by the handler, with the assignments made so far kept.
  \<open>sendMessageQueue\<close> is a plain object: under a key it has no entry for, the read of
  line 132 finds the member a plain object inherits (which has no property \<open>callback\<close>,
  so nothing is called and nothing deleted), or else \<open>undefined\<close>, whose property
  \<open>callback\<close> cannot be read.
\<close>

definition resolvePending :: "platform \<Rightarrow> jsval \<Rightarrow> ClientWs \<Rightarrow> outcome" where
  "resolvePending P data s =
     (case get_prop P data (uniqueKey (options s)) of
        Inl e \<Rightarrow> (Some e, s)
      | Inr uk \<Rightarrow>
          if truthy uk
          then (case map_of (sendMessageQueue s) (ToString uk) of
                  None \<Rightarrow>
                    (case inherited P (JObj []) (ToString uk) of
                       None \<Rightarrow> (Some TypeError, s)
                     | Some m \<Rightarrow> (None, s))
                | Some (message, callback) \<Rightarrow>
                    (case callback of
                       None \<Rightarrow> (None, s)
                     | Some f \<Rightarrow>
                         andThen
                           (case ws s of
                              None \<Rightarrow>
                                call_callback f (Some (Error Websocket_connection_is_not_open)) JNull s
                            | Some w \<Rightarrow>
                                if readyState w = OPEN then call_callback f None data s
                                else call_callback f
                                       (Some (Error Websocket_connection_is_not_open)) JNull s)
                           (\<lambda>s1. (None, s1\<lparr>sendMessageQueue :=
                                     AList.delete (ToString uk) (sendMessageQueue s1)\<rparr>))))
          else (None, s))"

definition messageHandler :: "platform \<Rightarrow> event \<Rightarrow> ClientWs \<Rightarrow> outcome" where
  "messageHandler P ev s =
     andThen (emit ''message'' ev s)
       (\<lambda>s1. case ev of
               Event ty \<Rightarrow> (None, s1)
             | MessageEvent raw \<Rightarrow>
                 (case JSON_parse P raw of
                    None \<Rightarrow> (None, s1)
                  | Some data \<Rightarrow> (None, snd (resolvePending P data s1))))"

section \<open>Closing\<close>

definition close :: "ClientWs \<Rightarrow> ClientWs" where
  "close s = (ws_close (s\<lparr>isHandleClose := True\<rparr>))\<lparr>ws := None\<rparr>"

definition destroy :: "ClientWs \<Rightarrow> ClientWs" where
  "destroy s = (close (removeAllListeners s))\<lparr>ws := None\<rparr>"

section \<open>The environment\<close>

text \<open>
  What can happen to a client: a call of a public method; an event of the socket the
  client holds, which changes the socket's state and runs the handler bound to it; an
  event of a socket the client has let go of (by \<open>close\<close>, or by the reconnect timer
  replacing it), whose handlers are still bound to the client; a timer that fires. The
  string of an event that may send is the key \<open>generateUniqueKey()\<close> returns then.
\<close>

datatype action =
    Connect
  | Close
  | Destroy
  | SendMessage string jsval "userfn option"
  | On string userfn
  | Once string userfn
  | RemoveListener string
  | RemoveAllListeners
  | SocketOpens string
  | SocketCloses
  | SocketMessage string
  | SocketError
  | ReleasedSocketOpens string
  | ReleasedSocketCloses
  | ReleasedSocketMessage string
  | ReleasedSocketError
  | TimerFires nat string

definition fireTimer :: "platform \<Rightarrow> string \<Rightarrow> timer \<Rightarrow> ClientWs \<Rightarrow> outcome" where
  "fireTimer P key t s =
     (let s1 = s\<lparr>timers := filter (\<lambda>x. timerId x \<noteq> timerId t) (timers s)\<rparr>
      in case action t of
           ConnectTimeout \<Rightarrow> onConnectTimeout s1
         | ReconnectTimer \<Rightarrow> (None, onReconnectTimer s1)
         | SendNextMessage i \<Rightarrow> sendNextMessage P key i s1)"

fun step :: "platform \<Rightarrow> action \<Rightarrow> ClientWs \<Rightarrow> outcome" where
  "step P Connect s = (None, connect s)"
| "step P Close s = (None, close s)"
| "step P Destroy s = (None, destroy s)"
| "step P (SendMessage key data callback) s = sendMessage P key data callback s"
| "step P (On ev f) s = on ev (Plain f) s"
| "step P (Once ev f) s = once ev f s"
| "step P (RemoveListener ev) s = (None, removeListener ev s)"
| "step P RemoveAllListeners s = (None, removeAllListeners s)"
| "step P (SocketOpens key) s =
     (case ws s of
        None \<Rightarrow> (None, s)
      | Some w \<Rightarrow>
          if readyState w = CONNECTING \<and> handlersBound w
          then openHandler P key (Event ''open'') (s\<lparr>ws := Some (w\<lparr>readyState := OPEN\<rparr>)\<rparr>)
          else (None, s))"
| "step P SocketCloses s =
     (case ws s of
        None \<Rightarrow> (None, s)
      | Some w \<Rightarrow>
          if readyState w \<noteq> CLOSED \<and> handlersBound w
          then closeHandler (Event ''close'') (s\<lparr>ws := Some (w\<lparr>readyState := CLOSED\<rparr>)\<rparr>)
          else (None, s))"
| "step P (SocketMessage raw) s =
     (case ws s of
        None \<Rightarrow> (None, s)
      | Some w \<Rightarrow>
          if (readyState w = OPEN \<or> readyState w = CLOSING) \<and> handlersBound w
          then messageHandler P (MessageEvent raw) s
          else (None, s))"
| "step P SocketError s =
     (case ws s of
        None \<Rightarrow> (None, s)
      | Some w \<Rightarrow> if handlersBound w then errorHandler (Event ''error'') s else (None, s))"
| "step P (ReleasedSocketOpens key) s = openHandler P key (Event ''open'') s"
| "step P ReleasedSocketCloses s = closeHandler (Event ''close'') s"
| "step P (ReleasedSocketMessage raw) s = messageHandler P (MessageEvent raw) s"
| "step P ReleasedSocketError s = errorHandler (Event ''error'') s"
| "step P (TimerFires t key) s =
     (case find (\<lambda>x. timerId x = t) (timers s) of
        None \<Rightarrow> (None, s)
      | Some x \<Rightarrow> fireTimer P key x s)"

text \<open>
  A run: the actions one after the other. An exception that leaves a handler or a method
  ends that call only; the client goes on from the state the call left.
\<close>

fun run :: "platform \<Rightarrow> action list \<Rightarrow> ClientWs \<Rightarrow> ClientWs" where
  "run P [] s = s"
| "run P (a # as) s = run P as (snd (step P a s))"

definition isOpenEvent :: "action \<Rightarrow> bool" where
  "isOpenEvent a = (case a of SocketOpens k \<Rightarrow> True | ReleasedSocketOpens k \<Rightarrow> True | _ \<Rightarrow> False)"

section \<open>Reading a state\<close>

text \<open>
  The function of the user inside a listener, its identity, what it throws, and whether
  it returns.
\<close>

fun userfnOf :: "listener \<Rightarrow> userfn" where
  "userfnOf (Plain f) = f"
| "userfnOf (OnceListener i ev f) = f"

fun fnId :: "userfn \<Rightarrow> nat" where
  "fnId (UserFn n thr) = n"

fun thrown :: "userfn \<Rightarrow> string option" where
  "thrown (UserFn n thr) = thr"

definition returns :: "listener \<Rightarrow> bool" where
  "returns l = (thrown (userfnOf l) = None)"


text \<open>The cache holds no more than \<open>maxCacheMessage\<close> messages, a bound of at least 1.\<close>

definition inBound :: "ClientWs \<Rightarrow> bool" where
  "inBound s =
     (1 \<le> maxCacheMessage (options s)
      \<and> int (length (messageCache s)) \<le> maxCacheMessage (options s))"


text \<open>The test \<open>this.ws?.readyState === WebSocket.OPEN\<close>.\<close>

definition isOpen :: "ClientWs \<Rightarrow> bool" where
  "isOpen s = (case ws s of None \<Rightarrow> False | Some w \<Rightarrow> readyState w = OPEN)"




section \<open>Example clients\<close>

text \<open>Options and a socket for the concrete runs below.\<close>

definition demoOptions :: Options where
  "demoOptions =
     \<lparr>url = ''ws://host'', timeout = 5000, reconnect = True, reconnectInterval = 1000,
      reconnectMaxInterval = 10000, reconnectMaxTimes = 0, uniqueKey = ''message_id'',
      cacheMessage = False, maxCacheMessage = 100\<rparr>"

definition limitedOptions :: Options where
  "limitedOptions = demoOptions\<lparr>reconnectMaxTimes := 2\<rparr>"


definition closedSocket :: WebSocket where
  "closedSocket = \<lparr>readyState = CLOSED, handlersBound = True\<rparr>"

text \<open>
  A stand-in for the platform: an object is written as its properties in order, two texts
  are read back as objects, and every value inherits a function \<open>toString\<close>.
\<close>

definition demoStringify :: "jsval \<Rightarrow> string" where
  "demoStringify v =
     (case v of
        JObj kvs \<Rightarrow> ''{'' @ concat (map (\<lambda>(k, x). k @ '':'' @ ToString x @ '';'') kvs) @ ''}''
      | _ \<Rightarrow> ToString v)"

definition demoPlatform :: platform where
  "demoPlatform =
     \<lparr>JSON_parse =
        map_of [(''{message_id:k1;}'', JObj [(''message_id'', JStr ''k1'')]),
                (''{message_id:mine;}'', JObj [(''message_id'', JStr ''mine'')])],
      JSON_stringify = demoStringify,
      inherited = (\<lambda>v name. if name = ''toString''
                              then Some (JFunction ''function toString() { [native code] }'')
                              else None)\<rparr>"

text \<open>A client that has connected and whose socket is open.\<close>

definition openClient :: ClientWs where
  "openClient = run demoPlatform [Connect, SocketOpens ''k0''] (initial demoOptions)"

text \<open>The same client after the peer closed the socket.\<close>

definition reconnectingClient :: ClientWs where
  "reconnectingClient = run demoPlatform [SocketCloses] openClient"

text \<open>A new client that caches at most two messages, and the same after three sends.\<close>

definition cachingClient :: ClientWs where
  "cachingClient = initial (demoOptions\<lparr>cacheMessage := True, maxCacheMessage := 2\<rparr>)"





text \<open>
  A client limited to two reconnect attempts, with a listener for \<open>error\<close> and one for
  \<open>close\<close>, that has lost its socket twice and is connecting for the third time.
\<close>

definition exhaustedClient :: ClientWs where
  "exhaustedClient =
     run demoPlatform
       [On ''error'' (UserFn 1 None), On ''close'' (UserFn 2 None), Connect,
        SocketCloses, TimerFires 2 ''a'', SocketCloses, TimerFires 3 ''b'']
       (initial limitedOptions)"

text \<open>A client with two listeners for \<open>message\<close>, the first of which throws.\<close>

definition twoListeners :: ClientWs where
  "twoListeners =
     run demoPlatform
       [On ''message'' (UserFn 1 (Some ''boom'')), On ''message'' (UserFn 2 None)]
       (initial demoOptions)"

text \<open>An open client that has sent one object, without and with a callback.\<close>

definition pendingWithoutCallback :: ClientWs where
  "pendingWithoutCallback =
     run demoPlatform
       [Connect, SocketOpens ''k0'', SendMessage ''k1'' (JObj [(''text'', JStr ''hi'')]) None]
       (initial demoOptions)"

definition pendingWithCallback :: ClientWs where
  "pendingWithCallback =
     run demoPlatform
       [Connect, SocketOpens ''k0'',
        SendMessage ''k1'' (JObj [(''text'', JStr ''hi'')]) (Some (UserFn 5 None))]
       (initial demoOptions)"

text \<open>The same with a callback, behind a listener for \<open>message\<close> that throws.\<close>

definition pendingBehindListener :: ClientWs where
  "pendingBehindListener =
     run demoPlatform
       [On ''message'' (UserFn 1 (Some ''boom'')), Connect, SocketOpens ''k0'',
        SendMessage ''k1'' (JObj [(''text'', JStr ''hi'')]) (Some (UserFn 5 None))]
       (initial demoOptions)"

text \<open>An object that has a field of its own under the name of \<open>uniqueKey\<close>.\<close>

definition collidingPayload :: jsval where
  "collidingPayload = JObj [(''message_id'', JStr ''mine''), (''text'', JStr ''hi'')]"

section \<open>What \<open>emit\<close> leaves alone\<close>

lemma call_listener_frame:
  "call_listener l d s = (e, s') \<Longrightarrow>
   s' = s\<lparr>eventListeners := eventListeners s', listenerCalls := listenerCalls s'\<rparr>"
  by (cases "(l, d, s)" rule: call_listener.cases)
     (auto simp: andThen_def off_def split: option.splits)

lemma forEach_frame:
  "forEach ls d s = (e, s') \<Longrightarrow>
   s' = s\<lparr>eventListeners := eventListeners s', listenerCalls := listenerCalls s'\<rparr>"
proof (induction ls arbitrary: s)
  case Nil
  then show ?case by simp
next
  case (Cons l ls)
  obtain e1 s1 where c: "call_listener l d s = (e1, s1)"
    by (cases "call_listener l d s")
  note f1 = call_listener_frame [OF c]
  show ?case
  proof (cases e1)
    case None
    with Cons.prems c have "forEach ls d s1 = (e, s')"
      by (simp add: andThen_def)
    from Cons.IH [OF this]
    have "s' = s1\<lparr>eventListeners := eventListeners s', listenerCalls := listenerCalls s'\<rparr>" .
    then show ?thesis
      by (rule trans) (subst f1, simp)
  next
    case (Some x)
    with Cons.prems c have "s' = s1"
      by (simp add: andThen_def)
    with f1 show ?thesis by simp
  qed
qed

lemma emit_frame:
  "emit ev d s = (e, s') \<Longrightarrow>
   s' = s\<lparr>eventListeners := eventListeners s', listenerCalls := listenerCalls s'\<rparr>"
  by (auto simp: emit_def split: option.splits if_splits dest: forEach_frame)

lemma emit_update:
  assumes "emit ev d s = (e, s')"
  obtains a b where "s' = s\<lparr>eventListeners := a, listenerCalls := b\<rparr>"
  using emit_frame [OF assms] by blast

lemma emit_fields:
  assumes "emit ev d s = (e, s')"
  shows "ws s' = ws s" "options s' = options s" "isHandleClose s' = isHandleClose s"
    "timers s' = timers s" "reconnectAttempts s' = reconnectAttempts s"
    "reconnectTimeout s' = reconnectTimeout s" "socketsCreated s' = socketsCreated s"
    "messageCache s' = messageCache s" "sendMessageQueue s' = sendMessageQueue s"
    "callbackCalls s' = callbackCalls s" "wire s' = wire s" "nextTimerId s' = nextTimerId s"
  by (rule emit_update [OF assms], simp)+

section \<open>The backoff delay\<close>

text \<open>
  Claim C5. When \<open>reconnect\<close> arms its timer (a socket that is closing or closed, the
  attempts not used up), the timer's delay is \<open>min (b * 2 ^ n) m\<close> for the base interval
  \<open>b\<close>, the ceiling \<open>m\<close> and the attempt counter \<open>n\<close>; the timer is appended to the armed
  ones, after the one stored in \<open>reconnectTimeout\<close> is cleared. With a base of 1000 and a
  ceiling of 10000, the counters 0, 1, 2, 3, 4 give 1000, 2000, 4000, 8000, 10000.
  Numbers are integers here; the source computes in double precision, which agrees as
  long as the product is below \<open>2 ^ 53\<close>.
\<close>

theorem reconnect_delay:
  assumes "ws s = Some w" and "readyState w = CLOSING \<or> readyState w = CLOSED"
    and "reconnectMaxTimes (options s) = 0
         \<or> int (reconnectAttempts s) < reconnectMaxTimes (options s)"
    and "reconnectInterval (options s) = b" and "reconnectMaxInterval (options s) = m"
    and "reconnectAttempts s = n"
  shows "fst (reconnect' s) = None
    \<and> timers (snd (reconnect' s)) =
        (case reconnectTimeout s of
           None \<Rightarrow> timers s
         | Some t \<Rightarrow> if t \<noteq> 0 then filter (\<lambda>x. timerId x \<noteq> t) (timers s) else timers s)
        @ [\<lparr>timerId = nextTimerId s, delay = min (b * 2 ^ n) m, action = ReconnectTimer\<rparr>]
    \<and> reconnectTimeout (snd (reconnect' s)) = Some (nextTimerId s)
    \<and> map (\<lambda>k. exponentialBackoff
                (s\<lparr>reconnectAttempts := k,
                   options := (options s)\<lparr>reconnectInterval := 1000,
                                            reconnectMaxInterval := 10000\<rparr>\<rparr>))
          [0, 1, 2, 3, 4]
        = [1000, 2000, 4000, 8000, 10000]"
  using assms
  by (auto simp: reconnect'_def exponentialBackoff_def setTimeout_def clearTimeout_def
           split: option.splits)

theorem reconnect_delay_witness:
  "ws ((initial demoOptions)\<lparr>ws := Some closedSocket, reconnectAttempts := 4\<rparr>)
     = Some closedSocket
   \<and> readyState closedSocket = CLOSED
   \<and> reconnectMaxTimes demoOptions = 0
   \<and> timers (snd (reconnect'
        ((initial demoOptions)\<lparr>ws := Some closedSocket, reconnectAttempts := 4\<rparr>)))
      = [\<lparr>timerId = 1, delay = 10000, action = ReconnectTimer\<rparr>]"
  using reconnect_delay
    [of "(initial demoOptions)\<lparr>ws := Some closedSocket, reconnectAttempts := 4\<rparr>"
      closedSocket 1000 10000 4]
  by (simp add: initial_def demoOptions_def closedSocket_def)

section \<open>The flag of a close by the user\<close>

text \<open>
  \<open>isHandleClose\<close> is set by \<open>close\<close> and reset by \<open>openHandler\<close> only: no other
  method, handler or timer writes it.
\<close>

lemma reconnect'_flag: "isHandleClose (snd (reconnect' s)) = isHandleClose s"
  by (simp add: reconnect'_def setTimeout_def clearTimeout_def Let_def split: option.splits prod.splits)

lemma call_callback_flag: "isHandleClose (snd (call_callback f e d s)) = isHandleClose s"
  by (simp add: call_callback_def split: userfn.splits)

lemma notConnected_flag: "isHandleClose (snd (notConnected c s)) = isHandleClose s"
  by (simp add: notConnected_def call_callback_flag split: option.splits)

lemma sendMessage_flag: "isHandleClose (snd (sendMessage P k d c s)) = isHandleClose s"
  by (simp add: sendMessage_def notConnected_flag ws_send_def Let_def split: option.splits jsval.splits)

lemma emit_flag: "isHandleClose (snd (emit ev d s)) = isHandleClose s"
  by (cases "emit ev d s") (simp add: emit_fields)

lemma andThen_flag:
  assumes "\<And>s1. isHandleClose (snd (f s1)) = isHandleClose s1"
  shows "isHandleClose (snd (andThen r f)) = isHandleClose (snd r)"
  using assms by (cases r) (auto simp: andThen_def split: option.splits)

lemma closeHandler_flag: "isHandleClose (snd (closeHandler ev s)) = isHandleClose s"
  by (simp add: closeHandler_def andThen_flag emit_flag reconnect'_flag)

lemma errorHandler_flag: "isHandleClose (snd (errorHandler ev s)) = isHandleClose s"
  by (simp add: errorHandler_def emit_flag)

lemma resolvePending_flag: "isHandleClose (snd (resolvePending P d s)) = isHandleClose s"
  by (simp add: resolvePending_def andThen_flag call_callback_flag
      split: sum.splits option.splits)

lemma messageHandler_flag: "isHandleClose (snd (messageHandler P ev s)) = isHandleClose s"
  by (simp add: messageHandler_def andThen_flag emit_flag resolvePending_flag
      split: event.splits option.splits)

lemma sendNextMessage_flag: "isHandleClose (snd (sendNextMessage P k i s)) = isHandleClose s"
  by (simp add: sendNextMessage_def andThen_flag sendMessage_flag setTimeout_def
      split: prod.splits)

lemma ws_close_flag: "isHandleClose (ws_close s) = isHandleClose s"
  by (simp add: ws_close_def split: option.splits)

lemma onConnectTimeout_flag: "isHandleClose (snd (onConnectTimeout s)) = isHandleClose s"
  by (simp add: onConnectTimeout_def andThen_flag emit_flag ws_close_flag reconnect'_flag
      split: option.splits)

lemma onReconnectTimer_flag: "isHandleClose (onReconnectTimer s) = isHandleClose s"
  by (simp add: onReconnectTimer_def bindEvents_def new_WebSocket_def Let_def)

lemma fireTimer_flag: "isHandleClose (snd (fireTimer P k t s)) = isHandleClose s"
  by (simp add: fireTimer_def Let_def onConnectTimeout_flag onReconnectTimer_flag sendNextMessage_flag
      split: timerAction.splits)

lemma connect_flag: "isHandleClose (connect s) = isHandleClose s"
  by (simp add: connect_def bindEvents_def new_WebSocket_def setTimeout_def Let_def)

lemma on_flag: "isHandleClose (snd (on ev l s)) = isHandleClose s"
  by (simp add: on_def Let_def)

lemma once_flag: "isHandleClose (snd (once ev f s)) = isHandleClose s"
  by (simp add: once_def on_flag)

lemma close_flag: "isHandleClose (close s)"
  by (simp add: close_def ws_close_flag)

lemma destroy_flag: "isHandleClose (destroy s)"
  by (simp add: destroy_def close_flag)

lemma openHandler_flag: "\<not> isHandleClose (snd (openHandler P key ev s))"
  by (simp add: openHandler_def Let_def andThen_flag emit_flag sendCachedMessages_def
      sendNextMessage_flag)

lemma step_flag:
  assumes "isHandleClose s" and "\<not> isOpenEvent a"
  shows "isHandleClose (snd (step P a s))"
  using assms
  by (cases a)
     (simp_all add: isOpenEvent_def connect_flag close_flag destroy_flag sendMessage_flag
        on_flag once_flag removeListener_def removeAllListeners_def closeHandler_flag
        messageHandler_flag errorHandler_flag fireTimer_flag split: option.splits)

lemma run_flag:
  assumes "isHandleClose s" and "\<forall>a \<in> set as. \<not> isOpenEvent a"
  shows "isHandleClose (run P as s)"
  using assms by (induction as arbitrary: s) (simp_all add: step_flag)

section \<open>Closing by the user\<close>

lemma openClient_eq:
  "openClient = (initial demoOptions)
     \<lparr>ws := Some \<lparr>readyState = OPEN, handlersBound = True\<rparr>,
      timers := [\<lparr>timerId = 1, delay = 5000, action = ConnectTimeout\<rparr>],
      nextTimerId := 2, socketsCreated := 1\<rparr>"
  by (simp add: openClient_def initial_def demoOptions_def connect_def new_WebSocket_def
      bindEvents_def setTimeout_def openHandler_def emit_def andThen_def
      sendCachedMessages_def sendNextMessage_def)

text \<open>
  Claim C7. After \<open>close()\<close> the flag \<open>isHandleClose\<close> is set and the socket is
  released. Whatever happens next short of a socket's open event (further calls, events,
  timers), the close handler then does no more than emit \<open>close\<close> to the listeners: it
  does not call \<open>reconnect\<close>, so it arms no timer and creates no socket, whatever the
  option \<open>reconnect\<close> says.
\<close>

theorem close_event_after_close:
  assumes "\<forall>a \<in> set as. \<not> isOpenEvent a"
  shows "ws (close s) = None \<and> isHandleClose (close s)
    \<and> closeHandler ev (run P as (close s)) = emit ''close'' ev (run P as (close s))
    \<and> timers (snd (closeHandler ev (run P as (close s)))) = timers (run P as (close s))
    \<and> socketsCreated (snd (closeHandler ev (run P as (close s))))
        = socketsCreated (run P as (close s))
    \<and> reconnectTimeout (snd (closeHandler ev (run P as (close s))))
        = reconnectTimeout (run P as (close s))"
proof -
  let ?s = "run P as (close s)"
  have flag: "isHandleClose ?s"
    using assms by (simp add: run_flag close_flag)
  have eq: "closeHandler ev ?s = emit ''close'' ev ?s"
  proof (cases "emit ''close'' ev ?s")
    case (Pair e s1)
    with flag have "isHandleClose s1" by (simp add: emit_fields)
    with Pair show ?thesis
      by (cases e) (simp_all add: closeHandler_def andThen_def)
  qed
  obtain e s1 where em: "emit ''close'' ev ?s = (e, s1)"
    by (cases "emit ''close'' ev ?s")
  have "ws (close s) = None"
    by (simp add: close_def)
  moreover have "timers (snd (emit ''close'' ev ?s)) = timers ?s"
    and "socketsCreated (snd (emit ''close'' ev ?s)) = socketsCreated ?s"
    and "reconnectTimeout (snd (emit ''close'' ev ?s)) = reconnectTimeout ?s"
    by (simp_all add: em emit_fields [OF em])
  ultimately show ?thesis
    by (simp add: eq close_flag)
qed

theorem close_event_after_close_witness:
  "reconnect (options openClient) \<and> \<not> isOpenEvent Connect
   \<and> closeHandler (Event ''close'') (run demoPlatform [Connect] (close openClient))
     = (None, run demoPlatform [Connect] (close openClient))
   \<and> timers (run demoPlatform [Connect] (close openClient))
     = [\<lparr>timerId = 1, delay = 5000, action = ConnectTimeout\<rparr>,
        \<lparr>timerId = 2, delay = 5000, action = ConnectTimeout\<rparr>]"
  using close_event_after_close [of "[Connect]" openClient "Event ''close''" demoPlatform]
  by (simp add: openClient_eq isOpenEvent_def initial_def demoOptions_def close_def
      ws_close_def connect_def new_WebSocket_def bindEvents_def setTimeout_def emit_def)

text \<open>
  Claim C10. After \<open>close()\<close> the flag stays set until a socket's open event: through
  \<open>connect()\<close> and any later actions other than an open event it is still set. The
  function of the connection timeout then returns at once: the state is as it was (the
  socket is not closed, no \<open>error\<close> is emitted, \<open>reconnect\<close> is not called), and a
  timeout timer that fires is only removed from the armed timers. \<open>connect()\<close> after
  \<open>close()\<close> does create a socket and, for a nonzero \<open>timeout\<close>, arm that timer.
  The open event is what resets the flag: after \<open>openHandler\<close>, from any state, the flag
  is not set, and so it is when the socket of that \<open>connect()\<close> opens, also after
  further actions that leave this socket connecting.
\<close>

theorem timeout_guard_disabled_after_close:
  assumes "\<forall>a \<in> set as. \<not> isOpenEvent a"
  shows "isHandleClose (run P as (connect (close s)))
    \<and> onConnectTimeout (run P as (connect (close s))) = (None, run P as (connect (close s)))
    \<and> (\<forall>t \<in> set (timers (run P as (connect (close s)))).
          action t = ConnectTimeout \<longrightarrow>
          fireTimer P key t (run P as (connect (close s)))
          = (None, (run P as (connect (close s)))
               \<lparr>timers := filter (\<lambda>x. timerId x \<noteq> timerId t)
                                 (timers (run P as (connect (close s))))\<rparr>))
    \<and> ws (connect (close s)) = Some \<lparr>readyState = CONNECTING, handlersBound = True\<rparr>
    \<and> (timeout (options s) \<noteq> 0 \<longrightarrow>
          timers (connect (close s))
          = timers s @ [\<lparr>timerId = nextTimerId s, delay = timeout (options s),
                          action = ConnectTimeout\<rparr>])
    \<and> \<not> isHandleClose (snd (openHandler P key ev t))
    \<and> \<not> isHandleClose (snd (step P (SocketOpens key) (connect (close s))))
    \<and> (ws (run P as (connect (close s)))
          = Some \<lparr>readyState = CONNECTING, handlersBound = True\<rparr> \<longrightarrow>
        \<not> isHandleClose (snd (step P (SocketOpens key) (run P as (connect (close s))))))"
proof -
  let ?s = "run P as (connect (close s))"
  have flag: "isHandleClose ?s"
    using assms by (simp add: run_flag connect_flag close_flag)
  then have guard: "onConnectTimeout ?s = (None, ?s)"
    by (simp add: onConnectTimeout_def)
  have fire: "fireTimer P key t ?s
      = (None, ?s\<lparr>timers := filter (\<lambda>x. timerId x \<noteq> timerId t) (timers ?s)\<rparr>)"
    if "action t = ConnectTimeout" for t
    using that flag by (simp add: fireTimer_def onConnectTimeout_def)
  have conn: "ws (connect (close s)) = Some \<lparr>readyState = CONNECTING, handlersBound = True\<rparr>"
    by (simp add: connect_def close_def new_WebSocket_def bindEvents_def setTimeout_def Let_def)
  have arm: "timers (connect (close s))
      = timers s @ [\<lparr>timerId = nextTimerId s, delay = timeout (options s),
                      action = ConnectTimeout\<rparr>]"
    if "timeout (options s) \<noteq> 0"
    using that
    by (simp add: connect_def close_def ws_close_def new_WebSocket_def bindEvents_def
        setTimeout_def Let_def split: option.splits)
  have reset: "\<not> isHandleClose (snd (openHandler P key ev t))"
    by (rule openHandler_flag)
  have opens: "\<not> isHandleClose (snd (step P (SocketOpens key) (connect (close s))))"
    by (simp add: conn openHandler_flag)
  have later: "\<not> isHandleClose (snd (step P (SocketOpens key) ?s))"
    if "ws ?s = Some \<lparr>readyState = CONNECTING, handlersBound = True\<rparr>"
    using that by (simp add: openHandler_flag)
  from flag guard fire conn arm reset opens later show ?thesis by blast
qed

theorem timeout_guard_disabled_after_close_witness:
  "\<not> isOpenEvent SocketError \<and> timeout (options openClient) \<noteq> 0
   \<and> step demoPlatform (TimerFires 2 ''k'')
        (run demoPlatform [SocketError] (connect (close openClient)))
     = (None, (run demoPlatform [SocketError] (connect (close openClient)))
          \<lparr>timers := [\<lparr>timerId = 1, delay = 5000, action = ConnectTimeout\<rparr>]\<rparr>)
   \<and> ws (run demoPlatform [SocketError] (connect (close openClient)))
     = Some \<lparr>readyState = CONNECTING, handlersBound = True\<rparr>
   \<and> isHandleClose (run demoPlatform [SocketError] (connect (close openClient)))
   \<and> \<not> isHandleClose
         (snd (step demoPlatform (SocketOpens ''k'')
                (run demoPlatform [SocketError] (connect (close openClient)))))"
  using timeout_guard_disabled_after_close
    [where as = "[SocketError]" and P = demoPlatform and s = openClient and key = "''k''"]
  by (simp add: openClient_eq isOpenEvent_def initial_def demoOptions_def close_def
      ws_close_def connect_def new_WebSocket_def bindEvents_def setTimeout_def emit_def
      errorHandler_def fireTimer_def)

section \<open>Sending without a socket\<close>

text \<open>
  Claim C1, as the code has it. With \<open>cacheMessage\<close> on and no socket, \<open>sendMessage\<close>
  appends the payload and its callback to the cache (after dropping the oldest entry of a
  full cache) and then goes on to the test of line 226: it calls the callback, when there
  is one, with the failure "not connected" (\<open>Websocket_not_connected\<close>) and returns.
  Nothing is sent. The exception, if any, is the callback's own.
\<close>

theorem send_without_socket:
  assumes "cacheMessage (options s)" and "ws s = None"
  shows "sendMessage P key data callback s =
     (case callback of
        None \<Rightarrow>
          (None,
           s\<lparr>messageCache :=
               (if int (length (messageCache s)) < maxCacheMessage (options s)
                then messageCache s else tl (messageCache s)) @ [(data, callback)]\<rparr>)
      | Some (UserFn n thr) \<Rightarrow>
          (map_option UserError thr,
           s\<lparr>messageCache :=
               (if int (length (messageCache s)) < maxCacheMessage (options s)
                then messageCache s else tl (messageCache s)) @ [(data, callback)],
             callbackCalls :=
               callbackCalls s @ [(n, Some (Error Websocket_not_connected), JNull)]\<rparr>))
    \<and> wire (snd (sendMessage P key data callback s)) = wire s"
  using assms
  by (simp add: sendMessage_def notConnected_def call_callback_def
      split: option.splits userfn.splits)

theorem send_without_socket_witness:
  "cacheMessage (options cachingClient) \<and> ws cachingClient = None
   \<and> sendMessage demoPlatform ''k1'' (JStr ''hi'') (Some (UserFn 7 None)) cachingClient
     = (None,
        cachingClient\<lparr>messageCache := [(JStr ''hi'', Some (UserFn 7 None))],
          callbackCalls := [(7, Some (Error Websocket_not_connected), JNull)]\<rparr>)"
  using send_without_socket
    [of cachingClient demoPlatform "''k1''" "JStr ''hi''" "Some (UserFn 7 None)"]
  by (simp add: cachingClient_def initial_def demoOptions_def)

text \<open>
  Claim C1 as stated fails: on a new client with \<open>cacheMessage\<close> on, the first
  \<open>sendMessage\<close> with a callback calls that callback with the "not connected" failure.
\<close>

theorem send_without_socket_counterexample:
  "cacheMessage (options cachingClient) \<and> ws cachingClient = None
   \<and> callbackCalls cachingClient = []
   \<and> callbackCalls
        (snd (sendMessage demoPlatform ''k1'' (JStr ''hi'') (Some (UserFn 7 None)) cachingClient))
     = [(7, Some (Error Websocket_not_connected), JNull)]"
  by (simp add: cachingClient_def initial_def demoOptions_def sendMessage_def
      notConnected_def call_callback_def)

section \<open>Attempts used up\<close>

lemma exhaustedClient_eq:
  "exhaustedClient = (initial limitedOptions)
     \<lparr>ws := Some \<lparr>readyState = CONNECTING, handlersBound = True\<rparr>,
      eventListeners := [(''error'', [Plain (UserFn 1 None)]), (''close'', [Plain (UserFn 2 None)])],
      reconnectAttempts := 2,
      reconnectTimeout := Some 3,
      timers := [\<lparr>timerId = 1, delay = 5000, action = ConnectTimeout\<rparr>],
      nextTimerId := 4, socketsCreated := 3,
      listenerCalls := [(2, Event ''close''), (2, Event ''close'')]\<rparr>"
  by (simp add: exhaustedClient_def initial_def limitedOptions_def demoOptions_def
      on_def supportedEvents_def connect_def new_WebSocket_def bindEvents_def setTimeout_def
      closeHandler_def emit_def andThen_def reconnect'_def clearTimeout_def
      exponentialBackoff_def fireTimer_def onReconnectTimer_def)

text \<open>
  Claim C3 as stated fails. A client limited to two attempts, with a listener for
  \<open>error\<close> (function 1) and one for \<open>close\<close> (function 2), connects and loses its socket
  three times. The third close event leaves the handler with the exception
  "Max reconnect attempts reached"; the \<open>error\<close> listener has never been called.
\<close>

theorem attempts_used_up_counterexample:
  "step demoPlatform SocketCloses exhaustedClient
   = (Some (Error Max_reconnect_attempts_reached),
      exhaustedClient
        \<lparr>ws := Some \<lparr>readyState = CLOSED, handlersBound = True\<rparr>,
         listenerCalls := [(2, Event ''close''), (2, Event ''close''), (2, Event ''close'')]\<rparr>)"
  by (simp add: exhaustedClient_eq initial_def limitedOptions_def demoOptions_def
      closeHandler_def emit_def andThen_def reconnect'_def)

text \<open>
  Claim C3, as the code has it. With a socket, a nonzero \<open>reconnectMaxTimes\<close> and the
  attempt counter at or above it, \<open>reconnect\<close> throws "Max reconnect attempts reached" and
  changes nothing. The exception leaves the close handler, after the \<open>close\<close> event was
  emitted, and the function of the connection timeout, after the socket was closed, the
  \<open>error\<close> event of the timeout emitted and the counter incremented. No \<open>error\<close> event
  is emitted for it and no timer is armed.
\<close>

theorem attempts_used_up:
  assumes "ws s = Some w" and "reconnectMaxTimes (options s) \<noteq> 0"
  shows "(int (reconnectAttempts s) \<ge> reconnectMaxTimes (options s) \<longrightarrow>
            reconnect' s = (Some (Error Max_reconnect_attempts_reached), s))
    \<and> (int (reconnectAttempts s) \<ge> reconnectMaxTimes (options s)
         \<and> reconnect (options s) \<and> \<not> isHandleClose s
         \<and> emit ''close'' ev s = (None, s1) \<longrightarrow>
            closeHandler ev s = (Some (Error Max_reconnect_attempts_reached), s1))
    \<and> (int (Suc (reconnectAttempts s)) \<ge> reconnectMaxTimes (options s)
         \<and> reconnect (options s) \<and> \<not> isHandleClose s \<and> readyState w \<noteq> OPEN
         \<and> emit ''error'' (Event ''timeout'') (ws_close s) = (None, s2) \<longrightarrow>
            onConnectTimeout s
            = (Some (Error Max_reconnect_attempts_reached),
               s2\<lparr>reconnectAttempts := Suc (reconnectAttempts s)\<rparr>))"
proof (intro conjI impI)
  assume "int (reconnectAttempts s) \<ge> reconnectMaxTimes (options s)"
  with assms show "reconnect' s = (Some (Error Max_reconnect_attempts_reached), s)"
    by (simp add: reconnect'_def)
next
  assume a: "int (reconnectAttempts s) \<ge> reconnectMaxTimes (options s)
         \<and> reconnect (options s) \<and> \<not> isHandleClose s
         \<and> emit ''close'' ev s = (None, s1)"
  then have em: "emit ''close'' ev s = (None, s1)" by simp
  from a assms emit_fields [OF em]
  show "closeHandler ev s = (Some (Error Max_reconnect_attempts_reached), s1)"
    by (simp add: closeHandler_def andThen_def reconnect'_def)
next
  assume a: "int (Suc (reconnectAttempts s)) \<ge> reconnectMaxTimes (options s)
         \<and> reconnect (options s) \<and> \<not> isHandleClose s \<and> readyState w \<noteq> OPEN
         \<and> emit ''error'' (Event ''timeout'') (ws_close s) = (None, s2)"
  then have em: "emit ''error'' (Event ''timeout'') (ws_close s) = (None, s2)" by simp
  have c: "ws (ws_close s) \<noteq> None" "options (ws_close s) = options s"
    "reconnectAttempts (ws_close s) = reconnectAttempts s"
    using assms by (simp_all add: ws_close_def)
  from c(1) obtain w' where w': "ws (ws_close s) = Some w'" by blast
  from a assms emit_fields [OF em] c w'
  show "onConnectTimeout s
            = (Some (Error Max_reconnect_attempts_reached),
               s2\<lparr>reconnectAttempts := Suc (reconnectAttempts s)\<rparr>)"
    by (simp add: onConnectTimeout_def andThen_def reconnect'_def)
qed

theorem attempts_used_up_witness:
  "ws (exhaustedClient\<lparr>ws := Some closedSocket\<rparr>) = Some closedSocket
   \<and> reconnectMaxTimes (options exhaustedClient) = 2
   \<and> reconnectAttempts exhaustedClient = 2
   \<and> closeHandler (Event ''close'') (exhaustedClient\<lparr>ws := Some closedSocket\<rparr>)
     = (Some (Error Max_reconnect_attempts_reached),
        exhaustedClient
          \<lparr>ws := Some closedSocket,
           listenerCalls := [(2, Event ''close''), (2, Event ''close''), (2, Event ''close'')]\<rparr>)"
  using attempts_used_up
    [of "exhaustedClient\<lparr>ws := Some closedSocket\<rparr>" closedSocket "Event ''close''"
      "exhaustedClient
          \<lparr>ws := Some closedSocket,
           listenerCalls := [(2, Event ''close''), (2, Event ''close''), (2, Event ''close'')]\<rparr>"]
  by (simp add: exhaustedClient_eq initial_def limitedOptions_def demoOptions_def
      closedSocket_def emit_def andThen_def)

section \<open>Firing an event\<close>

lemma call_listener_calls:
  "listenerCalls (snd (call_listener l d s)) = listenerCalls s @ [(fnId (userfnOf l), d)]"
  "fst (call_listener l d s) = map_option UserError (thrown (userfnOf l))"
  by (cases "(l, d, s)" rule: call_listener.cases;
      cases "thrown (userfnOf l)"; simp add: andThen_def off_def split: option.splits)+

lemma forEach_calls:
  "listenerCalls (snd (forEach ls d s))
   = listenerCalls s
     @ map (\<lambda>l. (fnId (userfnOf l), d)) (takeWhile returns ls @ take 1 (dropWhile returns ls))
   \<and> fst (forEach ls d s)
     = (case dropWhile returns ls of
          [] \<Rightarrow> None
        | l # rest \<Rightarrow> map_option UserError (thrown (userfnOf l)))"
proof (induction ls arbitrary: s)
  case Nil
  show ?case by simp
next
  case (Cons l ls)
  obtain e1 s1 where c: "call_listener l d s = (e1, s1)"
    by (cases "call_listener l d s")
  from call_listener_calls [of l d s] c
  have s1: "listenerCalls s1 = listenerCalls s @ [(fnId (userfnOf l), d)]"
    and e1: "e1 = map_option UserError (thrown (userfnOf l))"
    by simp_all
  show ?case
  proof (cases "returns l")
    case True
    with e1 have "e1 = None" by (simp add: returns_def)
    with c have "forEach (l # ls) d s = forEach ls d s1"
      by (simp add: andThen_def)
    with Cons.IH [of s1] s1 True show ?thesis by simp
  next
    case False
    with e1 obtain x where "e1 = Some x" by (auto simp: returns_def)
    with c have "forEach (l # ls) d s = (e1, s1)"
      by (simp add: andThen_def)
    with s1 e1 False show ?thesis by simp
  qed
qed

text \<open>
  Claim C8, as the code has it. \<open>emit\<close> calls the listeners of the event one after the
  other in the order of the array, up to and including the first one that throws; the
  exception of that listener leaves \<open>emit\<close>, and the listeners after it are not called.
  When none throws, all are called and \<open>emit\<close> returns. The order of the array is the
  order of registration: \<open>on\<close> appends a listener that is not yet in it.
\<close>

theorem emit_in_order_until_throw:
  assumes "map_of (eventListeners s) ev = Some ls"
  shows "listenerCalls (snd (emit ev d s))
     = listenerCalls s
       @ map (\<lambda>l. (fnId (userfnOf l), d)) (takeWhile returns ls @ take 1 (dropWhile returns ls))
    \<and> fst (emit ev d s)
       = (case dropWhile returns ls of
            [] \<Rightarrow> None
          | l # rest \<Rightarrow> map_option UserError (thrown (userfnOf l)))
    \<and> (ev \<in> set supportedEvents \<and> l' \<notin> set ls \<longrightarrow>
         on ev l' s = (None, s\<lparr>eventListeners := AList.update ev (ls @ [l']) (eventListeners s)\<rparr>)
         \<and> map_of (eventListeners (snd (on ev l' s))) ev = Some (ls @ [l']))"
proof -
  have "emit ev d s = forEach ls d s"
    using assms by (cases ls) (simp_all add: emit_def)
  then show ?thesis
    using assms forEach_calls [of ls d s] by (simp add: on_def update_conv')
qed

theorem emit_in_order_until_throw_witness:
  "map_of (eventListeners twoListeners) ''message''
     = Some [Plain (UserFn 1 (Some ''boom'')), Plain (UserFn 2 None)]
   \<and> listenerCalls (snd (emit ''message'' (MessageEvent ''x'') twoListeners))
     = [(1, MessageEvent ''x'')]
   \<and> fst (emit ''message'' (MessageEvent ''x'') twoListeners) = Some (UserError ''boom'')"
  using emit_in_order_until_throw
    [of twoListeners "''message''" "[Plain (UserFn 1 (Some ''boom'')), Plain (UserFn 2 None)]"
      "MessageEvent ''x''"]
  by (simp add: twoListeners_def initial_def demoOptions_def on_def supportedEvents_def
      returns_def)

text \<open>
  Claim C8 as stated fails: with two listeners for \<open>message\<close>, the first of which
  throws, \<open>emit\<close> throws and the second listener is not called.
\<close>

theorem emit_isolation_counterexample:
  "eventListeners twoListeners
     = [(''message'', [Plain (UserFn 1 (Some ''boom'')), Plain (UserFn 2 None)])]
   \<and> emit ''message'' (MessageEvent ''x'') twoListeners
     = (Some (UserError ''boom''), twoListeners\<lparr>listenerCalls := [(1, MessageEvent ''x'')]\<rparr>)"
  by (simp add: twoListeners_def initial_def demoOptions_def on_def supportedEvents_def
      emit_def andThen_def)

section \<open>Resolving a pending request\<close>

lemma pendingWithoutCallback_eq:
  "pendingWithoutCallback = (initial demoOptions)
     \<lparr>ws := Some \<lparr>readyState = OPEN, handlersBound = True\<rparr>,
      sendMessageQueue := [(''k1'', ''{message_id:k1;text:hi;}'', None)],
      timers := [\<lparr>timerId = 1, delay = 5000, action = ConnectTimeout\<rparr>],
      nextTimerId := 2, socketsCreated := 1,
      wire := [''{message_id:k1;text:hi;}'']\<rparr>"
  by (simp add: pendingWithoutCallback_def initial_def demoOptions_def demoPlatform_def demoStringify_def Let_def
      connect_def new_WebSocket_def bindEvents_def setTimeout_def openHandler_def emit_def
      andThen_def sendCachedMessages_def sendNextMessage_def sendMessage_def ws_send_def
      Object_assign_def set_prop_def array_index_def)

lemma pendingWithCallback_eq:
  "pendingWithCallback = (initial demoOptions)
     \<lparr>ws := Some \<lparr>readyState = OPEN, handlersBound = True\<rparr>,
      sendMessageQueue := [(''k1'', ''{message_id:k1;text:hi;}'', Some (UserFn 5 None))],
      timers := [\<lparr>timerId = 1, delay = 5000, action = ConnectTimeout\<rparr>],
      nextTimerId := 2, socketsCreated := 1,
      wire := [''{message_id:k1;text:hi;}'']\<rparr>"
  by (simp add: pendingWithCallback_def initial_def demoOptions_def demoPlatform_def demoStringify_def Let_def
      connect_def new_WebSocket_def bindEvents_def setTimeout_def openHandler_def emit_def
      andThen_def sendCachedMessages_def sendNextMessage_def sendMessage_def ws_send_def
      Object_assign_def set_prop_def array_index_def)

lemma pendingBehindListener_eq:
  "pendingBehindListener = (initial demoOptions)
     \<lparr>ws := Some \<lparr>readyState = OPEN, handlersBound = True\<rparr>,
      eventListeners := [(''message'', [Plain (UserFn 1 (Some ''boom''))])],
      sendMessageQueue := [(''k1'', ''{message_id:k1;text:hi;}'', Some (UserFn 5 None))],
      timers := [\<lparr>timerId = 1, delay = 5000, action = ConnectTimeout\<rparr>],
      nextTimerId := 2, socketsCreated := 1,
      wire := [''{message_id:k1;text:hi;}'']\<rparr>"
  by (simp add: pendingBehindListener_def initial_def demoOptions_def demoPlatform_def
      demoStringify_def Let_def on_def supportedEvents_def
      connect_def new_WebSocket_def bindEvents_def setTimeout_def openHandler_def emit_def
      andThen_def sendCachedMessages_def sendNextMessage_def sendMessage_def ws_send_def
      Object_assign_def set_prop_def array_index_def)

text \<open>
  Claim C9 as stated fails. An object sent without a callback leaves an entry in
  \<open>sendMessageQueue\<close>, and the response that carries its key leaves that entry where
  it is. And when a listener for \<open>message\<close> throws, the response to an object sent with
  a callback leaves the handler with the listener's exception: the callback is not
  called and the entry stays.
\<close>

theorem resolve_removes_entry_counterexample:
  "step demoPlatform (SocketMessage ''{message_id:k1;}'') pendingWithoutCallback
     = (None, pendingWithoutCallback)
   \<and> map_of (sendMessageQueue pendingWithoutCallback) ''k1''
     = Some (''{message_id:k1;text:hi;}'', None)
   \<and> step demoPlatform (SocketMessage ''{message_id:k1;}'') pendingBehindListener
     = (Some (UserError ''boom''),
        pendingBehindListener\<lparr>listenerCalls := [(1, MessageEvent ''{message_id:k1;}'')]\<rparr>)
   \<and> map_of (sendMessageQueue pendingBehindListener) ''k1''
     = Some (''{message_id:k1;text:hi;}'', Some (UserFn 5 None))
   \<and> callbackCalls pendingBehindListener = []"
  by (simp add: pendingWithoutCallback_eq pendingBehindListener_eq initial_def
      demoOptions_def demoPlatform_def
      messageHandler_def emit_def andThen_def resolvePending_def get_prop_def)

text \<open>
  Claim C9, as the code has it. An inbound message is emitted to the listeners first,
  outside the \<open>try\<close>: when one of them throws, its exception leaves the handler and
  nothing is resolved. When they return, the text parses and the parsed data has a
  truthy value under \<open>uniqueKey\<close>: an entry of \<open>sendMessageQueue\<close> under that key with a
  callback has its callback called exactly once, with the data when the socket is open
  and with the failure "websocket connection is not open" otherwise, and is removed when
  the callback returns (it stays when the callback throws); an entry without a callback
  stays; with no entry nothing is called and nothing changes. The handler throws in none
  of these cases. The listeners leave \<open>sendMessageQueue\<close> and the record of the calls
  of callbacks as they were.
\<close>

theorem correlated_message:
  assumes "JSON_parse P raw = Some data"
    and "get_prop P data (uniqueKey (options s)) = Inr uk" and "truthy uk"
  shows "messageHandler P (MessageEvent raw) s =
     (case emit ''message'' (MessageEvent raw) s of
        (Some e, s1) \<Rightarrow> (Some e, s1)
      | (None, s1) \<Rightarrow>
          (None,
           case map_of (sendMessageQueue s) (ToString uk) of
             None \<Rightarrow> s1
           | Some (m, None) \<Rightarrow> s1
           | Some (m, Some (UserFn n thr)) \<Rightarrow>
               (if thr = None
                then s1\<lparr>callbackCalls := callbackCalls s
                         @ [if isOpen s then (n, None, data)
                            else (n, Some (Error Websocket_connection_is_not_open), JNull)],
                       sendMessageQueue := AList.delete (ToString uk) (sendMessageQueue s)\<rparr>
                else s1\<lparr>callbackCalls := callbackCalls s
                         @ [if isOpen s then (n, None, data)
                            else (n, Some (Error Websocket_connection_is_not_open), JNull)]\<rparr>)))
    \<and> sendMessageQueue (snd (emit ''message'' (MessageEvent raw) s)) = sendMessageQueue s
    \<and> callbackCalls (snd (emit ''message'' (MessageEvent raw) s)) = callbackCalls s
    \<and> map_of (AList.delete (ToString uk) (sendMessageQueue s)) (ToString uk) = None"
proof -
  obtain e s1 where em: "emit ''message'' (MessageEvent raw) s = (e, s1)"
    by (cases "emit ''message'' (MessageEvent raw) s")
  note f = emit_fields [OF em]
  have main: "messageHandler P (MessageEvent raw) s =
     (case (e, s1) of
        (Some e, s1) \<Rightarrow> (Some e, s1)
      | (None, s1) \<Rightarrow>
          (None,
           case map_of (sendMessageQueue s) (ToString uk) of
             None \<Rightarrow> s1
           | Some (m, None) \<Rightarrow> s1
           | Some (m, Some (UserFn n thr)) \<Rightarrow>
               (if thr = None
                then s1\<lparr>callbackCalls := callbackCalls s
                         @ [if isOpen s then (n, None, data)
                            else (n, Some (Error Websocket_connection_is_not_open), JNull)],
                       sendMessageQueue := AList.delete (ToString uk) (sendMessageQueue s)\<rparr>
                else s1\<lparr>callbackCalls := callbackCalls s
                         @ [if isOpen s then (n, None, data)
                            else (n, Some (Error Websocket_connection_is_not_open), JNull)]\<rparr>)))"
  proof (cases e)
    case (Some x)
    with em show ?thesis
      by (simp add: messageHandler_def andThen_def)
  next
    case None
    have "snd (resolvePending P data s1) =
       (case map_of (sendMessageQueue s) (ToString uk) of
          None \<Rightarrow> s1
        | Some (m, None) \<Rightarrow> s1
        | Some (m, Some (UserFn n thr)) \<Rightarrow>
            (if thr = None
             then s1\<lparr>callbackCalls := callbackCalls s
                      @ [if isOpen s then (n, None, data)
                         else (n, Some (Error Websocket_connection_is_not_open), JNull)],
                    sendMessageQueue := AList.delete (ToString uk) (sendMessageQueue s)\<rparr>
             else s1\<lparr>callbackCalls := callbackCalls s
                      @ [if isOpen s then (n, None, data)
                         else (n, Some (Error Websocket_connection_is_not_open), JNull)]\<rparr>))"
      using assms(2,3) f
      by (simp add: resolvePending_def isOpen_def call_callback_def andThen_def
          split: option.splits userfn.splits)
    with None em assms(1) show ?thesis
      by (simp add: messageHandler_def andThen_def)
  qed
  show ?thesis
    unfolding em using main f by (simp add: delete_conv')
qed

theorem correlated_message_witness:
  "JSON_parse demoPlatform ''{message_id:k1;}'' = Some (JObj [(''message_id'', JStr ''k1'')])
   \<and> map_of (sendMessageQueue pendingWithCallback) ''k1''
     = Some (''{message_id:k1;text:hi;}'', Some (UserFn 5 None))
   \<and> messageHandler demoPlatform (MessageEvent ''{message_id:k1;}'') pendingWithCallback
     = (None,
        pendingWithCallback
          \<lparr>callbackCalls := [(5, None, JObj [(''message_id'', JStr ''k1'')])],
           sendMessageQueue := []\<rparr>)"
  using correlated_message
    [where P = demoPlatform and raw = "''{message_id:k1;}''"
      and data = "JObj [(''message_id'', JStr ''k1'')]"
      and s = pendingWithCallback and uk = "JStr ''k1''"]
  by (simp add: pendingWithCallback_eq initial_def demoOptions_def demoPlatform_def
      emit_def get_prop_def isOpen_def)

section \<open>The cache of unsent messages\<close>







lemma call_callback_inBound: "inBound s \<Longrightarrow> inBound (snd (call_callback f e d s))"
  by (simp add: call_callback_def inBound_def split: userfn.splits)

lemma notConnected_inBound: "inBound s \<Longrightarrow> inBound (snd (notConnected c s))"
  by (simp add: notConnected_def call_callback_inBound split: option.splits)

lemma push_inBound:
  assumes "inBound s"
  shows "inBound (s\<lparr>messageCache :=
           (if int (length (messageCache s)) < maxCacheMessage (options s)
            then messageCache s else tl (messageCache s)) @ [x]\<rparr>)"
  using assms by (auto simp: inBound_def)






























section \<open>The key of a request\<close>

text \<open>
  \<open>Object.assign\<close> writes the source over the target: a key of both has the source's
  value (the last one, if the list repeats a key).
\<close>

lemma insert_prop_lookup:
  "map_of obj k = None \<Longrightarrow> map_of (insert_prop k v obj) = (map_of obj)(k \<mapsto> v)"
  by (induction obj) (auto simp: fun_eq_iff split: option.splits if_splits)

lemma set_prop_lookup: "map_of (set_prop k v obj) = (map_of obj)(k \<mapsto> v)"
  by (simp add: set_prop_def insert_prop_lookup update_conv')

lemma Object_assign_lookup:
  "map_of (Object_assign target source) = map_of target ++ map_of (rev source)"
  unfolding Object_assign_def
proof (induction source arbitrary: target)
  case Nil
  show ?case by simp
next
  case (Cons kv source)
  obtain k v where kv: "kv = (k, v)" by (cases kv)
  have "map_of (fold (\<lambda>(k, v). set_prop k v) source (set_prop k v target))
      = map_of (set_prop k v target) ++ map_of (rev source)"
    by (rule Cons.IH)
  also have "\<dots> = map_of target ++ map_of (rev source @ [(k, v)])"
    by (simp add: set_prop_lookup map_add_def fun_eq_iff split: option.splits)
  finally show ?case by (simp add: kv)
qed

text \<open>
  Claim C2, at an input where the code departs from it. With \<open>uniqueKey\<close> being
  \<open>message_id\<close>, an open client sends the object \<open>{message_id: "mine", text: "hi"}\<close>
  with a callback, and \<open>generateUniqueKey()\<close> returns \<open>k1\<close>. Line 242 assigns the
  payload over the generated key, so the frame sent carries the caller's \<open>mine\<close>,
  while the callback is registered under \<open>k1\<close>. The response that echoes the
  \<open>message_id\<close> of the frame finds no entry: the callback is not called and stays
  registered.
\<close>

theorem caller_field_wins:
  "sendMessage demoPlatform ''k1'' collidingPayload (Some (UserFn 5 None)) openClient
   = (None,
      openClient
        \<lparr>sendMessageQueue := [(''k1'', ''{message_id:mine;text:hi;}'', Some (UserFn 5 None))],
         wire := [''{message_id:mine;text:hi;}'']\<rparr>)
   \<and> messageHandler demoPlatform (MessageEvent ''{message_id:mine;}'')
        (openClient
          \<lparr>sendMessageQueue := [(''k1'', ''{message_id:mine;text:hi;}'', Some (UserFn 5 None))],
           wire := [''{message_id:mine;text:hi;}'']\<rparr>)
     = (None,
        openClient
          \<lparr>sendMessageQueue := [(''k1'', ''{message_id:mine;text:hi;}'', Some (UserFn 5 None))],
           wire := [''{message_id:mine;text:hi;}'']\<rparr>)"
  by (simp add: openClient_eq collidingPayload_def initial_def demoOptions_def
      demoPlatform_def demoStringify_def sendMessage_def ws_send_def Object_assign_def set_prop_def array_index_def
      messageHandler_def emit_def andThen_def resolvePending_def get_prop_def Let_def)

section \<open>A timer that outlives the client\<close>

lemma reconnectingClient_eq:
  "reconnectingClient = openClient
     \<lparr>ws := Some \<lparr>readyState = CLOSED, handlersBound = True\<rparr>,
      reconnectTimeout := Some 2,
      timers := [\<lparr>timerId = 1, delay = 5000, action = ConnectTimeout\<rparr>,
                 \<lparr>timerId = 2, delay = 1000, action = ReconnectTimer\<rparr>],
      nextTimerId := 3\<rparr>"
  by (simp add: reconnectingClient_def openClient_eq initial_def demoOptions_def
      closeHandler_def emit_def andThen_def reconnect'_def exponentialBackoff_def
      setTimeout_def)

lemma destroyed_eq:
  "destroy reconnectingClient = reconnectingClient\<lparr>ws := None, isHandleClose := True\<rparr>"
  by (simp add: reconnectingClient_eq openClient_eq initial_def demoOptions_def destroy_def
      close_def ws_close_def removeAllListeners_def)

lemma revived_eq:
  "run demoPlatform [TimerFires 2 ''k2'', SocketOpens ''k3''] (destroy reconnectingClient)
   = reconnectingClient
     \<lparr>ws := Some \<lparr>readyState = OPEN, handlersBound = True\<rparr>,
      timers := [\<lparr>timerId = 1, delay = 5000, action = ConnectTimeout\<rparr>],
      socketsCreated := 2\<rparr>"
  by (subst destroyed_eq)
     (simp add: reconnectingClient_eq openClient_eq initial_def demoOptions_def
        fireTimer_def onReconnectTimer_def new_WebSocket_def bindEvents_def openHandler_def
        emit_def andThen_def sendCachedMessages_def sendNextMessage_def)

text \<open>
  Claim C4, at an input where the code departs from it. A client whose open socket was
  closed by the peer has armed its reconnect timer (timer 2). \<open>destroy()\<close> releases
  the socket and leaves the armed timers as they are. When timer 2 fires, it creates a
  second socket for the destroyed client; once that socket opens, \<open>sendMessage\<close> sends
  the text: the callback is not called, so there is no "not connected" failure.
\<close>

theorem timer_outlives_destroy:
  "ws (destroy reconnectingClient) = None
   \<and> timers (destroy reconnectingClient)
     = [\<lparr>timerId = 1, delay = 5000, action = ConnectTimeout\<rparr>,
        \<lparr>timerId = 2, delay = 1000, action = ReconnectTimer\<rparr>]
   \<and> socketsCreated (destroy reconnectingClient) = 1
   \<and> ws (run demoPlatform [TimerFires 2 ''k2''] (destroy reconnectingClient))
     = Some \<lparr>readyState = CONNECTING, handlersBound = True\<rparr>
   \<and> socketsCreated (run demoPlatform [TimerFires 2 ''k2''] (destroy reconnectingClient)) = 2
   \<and> sendMessage demoPlatform ''k4'' (JStr ''hello'') (Some (UserFn 9 None))
        (run demoPlatform [TimerFires 2 ''k2'', SocketOpens ''k3''] (destroy reconnectingClient))
     = (None,
        (run demoPlatform [TimerFires 2 ''k2'', SocketOpens ''k3''] (destroy reconnectingClient))
          \<lparr>wire := [''hello'']\<rparr>)"
proof -
  have "ws (run demoPlatform [TimerFires 2 ''k2''] (destroy reconnectingClient))
      = Some \<lparr>readyState = CONNECTING, handlersBound = True\<rparr>"
    and "socketsCreated (run demoPlatform [TimerFires 2 ''k2''] (destroy reconnectingClient)) = 2"
    by (subst destroyed_eq,
        simp add: reconnectingClient_eq openClient_eq initial_def demoOptions_def
          fireTimer_def onReconnectTimer_def new_WebSocket_def bindEvents_def)+
  moreover have "sendMessage demoPlatform ''k4'' (JStr ''hello'') (Some (UserFn 9 None))
        (run demoPlatform [TimerFires 2 ''k2'', SocketOpens ''k3''] (destroy reconnectingClient))
     = (None,
        (run demoPlatform [TimerFires 2 ''k2'', SocketOpens ''k3''] (destroy reconnectingClient))
          \<lparr>wire := [''hello'']\<rparr>)"
    unfolding revived_eq
    by (simp add: reconnectingClient_eq openClient_eq initial_def demoOptions_def
        sendMessage_def ws_send_def)
  moreover have "ws (destroy reconnectingClient) = None"
    and "timers (destroy reconnectingClient)
     = [\<lparr>timerId = 1, delay = 5000, action = ConnectTimeout\<rparr>,
        \<lparr>timerId = 2, delay = 1000, action = ReconnectTimer\<rparr>]"
    and "socketsCreated (destroy reconnectingClient) = 1"
    unfolding destroyed_eq
    by (simp_all add: reconnectingClient_eq openClient_eq initial_def)
  ultimately show ?thesis by blast
qed

end
